theory Spec2Isabelle
  imports Complex_Main "HOL-Library.AList" "HOL-Library.Log_Nat"
begin

section \<open>Batch-name parsing (workflow\_tools/quantification\_analysis.py)\<close>

text \<open>
  Batch names are Python strings. They are modelled as \<open>string\<close>; the character
  classes below are the ASCII ranges that the six patterns of \<open>extract_batch_info\<close>
  name (\<open>[a-zA-Z]\<close>, \<open>[a-zA-Z_]\<close>, \<open>\d\<close>, \<open>\w\<close>, \<open>[R/r]\<close>), so the model covers
  ASCII batch names.
\<close>

definition is_alpha :: "char \<Rightarrow> bool" where
  "is_alpha c = (let n = (of_char c :: nat) in (65 \<le> n \<and> n \<le> 90) \<or> (97 \<le> n \<and> n \<le> 122))"

definition is_digit :: "char \<Rightarrow> bool" where
  "is_digit c = (let n = (of_char c :: nat) in 48 \<le> n \<and> n \<le> 57)"

definition is_word :: "char \<Rightarrow> bool" where
  "is_word c = (is_alpha c \<or> is_digit c \<or> c = CHR ''_'')"

datatype cclass = Alpha | AlphaUnderscore | Word | Digit | RSlashr

fun in_class :: "cclass \<Rightarrow> char \<Rightarrow> bool" where
  "in_class Alpha c = is_alpha c"
| "in_class AlphaUnderscore c = (is_alpha c \<or> c = CHR ''_'')"
| "in_class Word c = is_word c"
| "in_class Digit c = is_digit c"
| "in_class RSlashr c = (c = CHR ''R'' \<or> c = CHR ''/'' \<or> c = CHR ''r'')"

text \<open>
  The fragment of Python's regular expressions that the six patterns use: a literal,
  one character of a class, a greedy \<open>+\<close> over a class, the anchor \<open>$\<close>, and
  capture groups (never nested) around a sequence of those.
\<close>

datatype atom = Lit string | One cclass | Plus cclass | Eol

datatype item = A atom | Grp "atom list"

text \<open>
  A backtracking matcher as a list of successes: every function returns the remaining
  inputs of all ways to match, in the order in which Python's engine tries them, so the
  head of the list is the match that \<open>re.match\<close> reports. A greedy \<open>+\<close> tries the
  longest run first and gives characters back one at a time. \<open>$\<close> holds at the end
  of the string and just before a newline that ends the string.
\<close>

fun plus_rests :: "cclass \<Rightarrow> string \<Rightarrow> string list" where
  "plus_rests c [] = []"
| "plus_rests c (x # xs) = (if in_class c x then plus_rests c xs @ [xs] else [])"

fun match_atom :: "atom \<Rightarrow> string \<Rightarrow> string list" where
  "match_atom (Lit l) s = (if take (length l) s = l then [drop (length l) s] else [])"
| "match_atom (One c) s = (case s of [] \<Rightarrow> [] | x # xs \<Rightarrow> if in_class c x then [xs] else [])"
| "match_atom (Plus c) s = plus_rests c s"
| "match_atom Eol s = (if s = [] \<or> s = [CHR 0x0A] then [s] else [])"

fun match_atoms :: "atom list \<Rightarrow> string \<Rightarrow> string list" where
  "match_atoms [] s = [s]"
| "match_atoms (a # as) s = concat (map (match_atoms as) (match_atom a s))"

fun match_item :: "item \<Rightarrow> string list \<times> string \<Rightarrow> (string list \<times> string) list" where
  "match_item (A a) (caps, s) = map (\<lambda>r. (caps, r)) (match_atom a s)"
| "match_item (Grp as) (caps, s) =
     map (\<lambda>r. (caps @ [take (length s - length r) s], r)) (match_atoms as s)"

fun match_items :: "item list \<Rightarrow> string list \<times> string \<Rightarrow> (string list \<times> string) list" where
  "match_items [] st = [st]"
| "match_items (i # is) st = concat (map (match_items is) (match_item i st))"

text \<open>\<open>re.match(pattern, s)\<close>: anchored at the start, not at the end; the result is the
  list of captured groups of the first match, or \<open>None\<close>.\<close>

definition re_match :: "item list \<Rightarrow> string \<Rightarrow> string list option" where
  "re_match p s = (case match_items p ([], s) of [] \<Rightarrow> None | (caps, r) # rest \<Rightarrow> Some caps)"

definition rep_suffix :: "item list" where
  "rep_suffix = [A (Lit ''_''), A (One RSlashr), A (Lit ''ep''), Grp [Plus Digit]]"

definition pattern1 :: "item list" where
  "pattern1 = [A (Plus Alpha), Grp [Lit ''PE'', Plus Word], A (Lit ''_P''), Grp [Plus Digit],
               A (Lit ''_R''), Grp [Plus Digit]] @ rep_suffix"

definition pattern2 :: "item list" where
  "pattern2 = [A (Plus Alpha), Grp [Lit ''PE'', Plus Word], A (Lit ''_R''), Grp [Plus Digit],
               A (Lit ''_P''), Grp [Plus Digit]] @ rep_suffix"

definition pattern3 :: "item list" where
  "pattern3 = [A (Plus Alpha), A (Lit ''_P''), Grp [Plus Digit],
               A (Lit ''_R''), Grp [Plus Digit]] @ rep_suffix"

definition pattern4 :: "item list" where
  "pattern4 = [A (Plus Alpha), A (Lit ''_R''), Grp [Plus Digit],
               A (Lit ''_P''), Grp [Plus Digit]] @ rep_suffix"

definition pattern_drug :: "item list" where
  "pattern_drug = [A (Plus AlphaUnderscore), Grp [Lit ''PE'', Plus Word], A (Lit ''_P''),
                   Grp [Plus Digit], A (Lit ''R''), Grp [Plus Digit], A (Lit ''_''),
                   Grp [Plus Alpha], A Eol]"

definition pattern_drug_rep :: "item list" where
  "pattern_drug_rep = [A (Plus AlphaUnderscore), Grp [Lit ''PE'', Plus Word], A (Lit ''_P''),
                   Grp [Plus Digit], A (Lit ''R''), Grp [Plus Digit], A (Lit ''_''),
                   Grp [Plus Alpha]] @ rep_suffix"

text \<open>
  Exceptions are values: a function that can raise returns \<open>error + 'a\<close>, with
  \<open>Inl\<close> for the raised exception.
\<close>

datatype error = ValueError | EOFError | TypeError

definition bind_r :: "error + 'a \<Rightarrow> ('a \<Rightarrow> error + 'b) \<Rightarrow> error + 'b" where
  "bind_r m f = (case m of Inl e \<Rightarrow> Inl e | Inr x \<Rightarrow> f x)"

text \<open>
  \<open>match.group(i)\<close>, and \<open>int(s)\<close> on an ASCII string: surrounding whitespace is
  dropped, one sign may lead, and the rest must be decimal digits, where single
  underscores may stand between digits; every other string raises \<open>ValueError\<close>.
\<close>

definition group :: "string list \<Rightarrow> nat \<Rightarrow> string" where
  "group caps i = caps ! (i - 1)"

definition is_space :: "char \<Rightarrow> bool" where
  "is_space c = (let n = (of_char c :: nat) in (9 \<le> n \<and> n \<le> 13) \<or> (28 \<le> n \<and> n \<le> 32))"

definition py_strip :: "string \<Rightarrow> string" where
  "py_strip s = rev (dropWhile is_space (rev (dropWhile is_space s)))"

fun no_double_underscore :: "string \<Rightarrow> bool" where
  "no_double_underscore (a # b # r) = (\<not> (a = CHR ''_'' \<and> b = CHR ''_'') \<and> no_double_underscore (b # r))"
| "no_double_underscore r = True"

definition int_literal_ok :: "string \<Rightarrow> bool" where
  "int_literal_ok s = (s \<noteq> [] \<and> list_all (\<lambda>c. is_digit c \<or> c = CHR ''_'') s
                       \<and> is_digit (hd s) \<and> is_digit (last s) \<and> no_double_underscore s)"

definition digits_value :: "string \<Rightarrow> int" where
  "digits_value ds = foldl (\<lambda>acc c. 10 * acc + (int (of_char c) - 48)) 0 (filter is_digit ds)"

definition py_int :: "string \<Rightarrow> error + int" where
  "py_int s =
     (let t = py_strip s;
          negative = (t \<noteq> [] \<and> hd t = CHR ''-'');
          body = (if t \<noteq> [] \<and> (hd t = CHR ''-'' \<or> hd t = CHR ''+'') then tl t else t)
      in if int_literal_ok body
         then Inr (if negative then - digits_value body else digits_value body)
         else Inl ValueError)"

type_synonym batch_info = "string option \<times> int option \<times> int option \<times> int option \<times> string option"

text \<open>
  \<open>extract_batch_info\<close> returns (prime\_editor, pbs, rtt, replicate, drug\_code)
  together with the lines it prints. All six matches are computed first, then the
  cascade picks the first one that succeeded. In the \<open>match_drug_rep\<close> branch the
  source reads the replicate from group 4 and the drug code from group 5.
\<close>

definition extract_batch_info :: "string \<Rightarrow> error + (batch_info \<times> string list)" where
  "extract_batch_info batch_name =
    (let match1 = re_match pattern1 batch_name;
         match2 = re_match pattern2 batch_name;
         match3 = re_match pattern3 batch_name;
         match4 = re_match pattern4 batch_name;
         match_drug_rep = re_match pattern_drug_rep batch_name;
         match_drug = re_match pattern_drug batch_name
     in case match1 of
          Some m \<Rightarrow>
            bind_r (py_int (group m 2)) (\<lambda>pbs.
            bind_r (py_int (group m 3)) (\<lambda>rtt.
            bind_r (py_int (group m 4)) (\<lambda>replicate.
            Inr ((Some (group m 1), Some pbs, Some rtt, Some replicate, None), []))))
        | None \<Rightarrow>
      (case match2 of
          Some m \<Rightarrow>
            bind_r (py_int (group m 2)) (\<lambda>rtt.
            bind_r (py_int (group m 3)) (\<lambda>pbs.
            bind_r (py_int (group m 4)) (\<lambda>replicate.
            Inr ((Some (group m 1), Some pbs, Some rtt, Some replicate, None), []))))
        | None \<Rightarrow>
      (case match3 of
          Some m \<Rightarrow>
            bind_r (py_int (group m 1)) (\<lambda>pbs.
            bind_r (py_int (group m 2)) (\<lambda>rtt.
            bind_r (py_int (group m 3)) (\<lambda>replicate.
            Inr ((None, Some pbs, Some rtt, Some replicate, None), []))))
        | None \<Rightarrow>
      (case match4 of
          Some m \<Rightarrow>
            bind_r (py_int (group m 1)) (\<lambda>rtt.
            bind_r (py_int (group m 2)) (\<lambda>pbs.
            bind_r (py_int (group m 3)) (\<lambda>replicate.
            Inr ((None, Some pbs, Some rtt, Some replicate, None), []))))
        | None \<Rightarrow>
      (case match_drug_rep of
          Some m \<Rightarrow>
            bind_r (py_int (group m 2)) (\<lambda>pbs.
            bind_r (py_int (group m 3)) (\<lambda>rtt.
            bind_r (py_int (group m 4)) (\<lambda>replicate.
            Inr ((Some (group m 1), Some pbs, Some rtt, Some replicate, Some (group m 5)), []))))
        | None \<Rightarrow>
      (case match_drug of
          Some m \<Rightarrow>
            bind_r (py_int (group m 2)) (\<lambda>pbs.
            bind_r (py_int (group m 3)) (\<lambda>rtt.
            Inr ((Some (group m 1), Some pbs, Some rtt, Some 1, Some (group m 4)), [])))
        | None \<Rightarrow>
          Inr ((None, None, None, None, None),
               [''Warning: Could not parse batch name: '' @ batch_name])))))))"

section \<open>Per-batch metrics and operator resolution (process\_data)\<close>

text \<open>
  One row of the input table. The three count columns are int64 columns: a count is an
  integer in the int64 range, and the sums of the columns and of the three sums wrap
  around at 64 bits. The sums and the count taken from a row are numpy integers, so the
  division is numpy's true division: both operands are converted to float64 and
  divided; for a zero divisor the result is \<open>nan\<close> or an infinity, with a
  RuntimeWarning instead of an exception.
\<close>

record row =
  Batch :: string
  Amplicon :: string
  Unmodified :: int
  Modified :: int
  Discarded :: int

definition wrap64 :: "int \<Rightarrow> int" where
  "wrap64 x = (x + 2 ^ 63) mod 2 ^ 64 - 2 ^ 63"

text \<open>
  A float64 is a finite value, an infinity or \<open>nan\<close>; the sign of a zero is not
  modelled. Every arithmetic operation rounds its exact result to the nearest float64,
  ties to the even significand: \<open>val64 x\<close> is that float for each real \<open>x\<close>, with
  53 significant bits and the least exponent of the subnormal numbers, and
  \<open>round64\<close> gives an infinity when the rounded value is beyond the largest float64.
  \<open>ilog2 x\<close> is the floor of the binary logarithm of a positive \<open>x\<close>.
\<close>

datatype float64 = Fin real | PInf | NInf | NaN

definition pow2 :: "int \<Rightarrow> real" where
  "pow2 e = (if 0 \<le> e then 2 ^ nat e else 1 / 2 ^ nat (- e))"

definition ilog2 :: "real \<Rightarrow> int" where
  "ilog2 x = (if 1 \<le> x then int (floorlog 2 (nat \<lfloor>x\<rfloor>)) - 1
              else - int (floorlog 2 (nat (\<lceil>1 / x\<rceil> - 1))))"

definition round_half_even :: "real \<Rightarrow> int" where
  "round_half_even x =
     (let f = \<lfloor>x\<rfloor>; d = x - of_int f
      in if d < 1 / 2 then f else if 1 / 2 < d then f + 1 else if even f then f else f + 1)"

definition val64 :: "real \<Rightarrow> real" where
  "val64 x = (if x = 0 then 0
              else let e = max (ilog2 \<bar>x\<bar> - 52) (- 1074)
                   in of_int (round_half_even (x / pow2 e)) * pow2 e)"

definition round64 :: "real \<Rightarrow> float64" where
  "round64 x = (let v = val64 x
                in if v \<noteq> 0 \<and> 1024 \<le> ilog2 \<bar>v\<bar> then (if 0 < v then PInf else NInf) else Fin v)"

definition np_true_divide :: "int \<Rightarrow> int \<Rightarrow> float64" where
  "np_true_divide a b =
     (if b = 0 then (if a = 0 then NaN else if 0 < a then PInf else NInf)
      else round64 (val64 (real_of_int a) / val64 (real_of_int b)))"

fun fl_sign :: "float64 \<Rightarrow> int" where
  "fl_sign (Fin a) = (if a = 0 then 0 else if 0 < a then 1 else -1)"
| "fl_sign PInf = 1"
| "fl_sign NInf = -1"
| "fl_sign NaN = 0"

definition inf_of_sign :: "int \<Rightarrow> float64" where
  "inf_of_sign s = (if s = 0 then NaN else if 0 < s then PInf else NInf)"

fun fl_mul :: "float64 \<Rightarrow> float64 \<Rightarrow> float64" where
  "fl_mul (Fin a) (Fin b) = round64 (a * b)"
| "fl_mul NaN y = NaN"
| "fl_mul x NaN = NaN"
| "fl_mul x y = inf_of_sign (fl_sign x * fl_sign y)"

definition lower_char :: "char \<Rightarrow> char" where
  "lower_char c = (let n = (of_char c :: nat) in if 65 \<le> n \<and> n \<le> 90 then char_of (n + 32) else c)"

definition py_lower :: "string \<Rightarrow> string" where
  "py_lower s = map lower_char s"

text \<open>\<open>Series.unique()\<close>: the distinct values in order of first appearance.\<close>

fun unique :: "'a list \<Rightarrow> 'a list" where
  "unique [] = []"
| "unique (x # xs) = x # unique (filter (\<lambda>y. y \<noteq> x) xs)"

text \<open>
  The value stored per batch. \<open>prime_editor\<close> is \<open>None\<close> while the entry sits in
  \<open>missing_pe_batches\<close>, where the dictionary has no such key yet.
\<close>

record batch_data =
  prime_editor :: "string option"
  pbs :: int
  rtt :: int
  replicate :: int
  correct_edits :: float64
  incorrect_edits :: float64
  scaffold_incorporated :: float64
  drug_code :: "string option"

datatype outcome = Skipped | Resolved batch_data | MissingPE batch_data

text \<open>The check for control samples: \<open>if drug_code and drug_code.lower() == 'ctrl'\<close>.\<close>

definition check_control :: "string option \<Rightarrow> string option" where
  "check_control dc =
     (case dc of None \<Rightarrow> None
      | Some c \<Rightarrow> if c \<noteq> [] \<and> py_lower c = ''ctrl'' then None else Some c)"

text \<open>The body of the loop over the unique batch names: the outcome for one batch and
  the lines printed.\<close>

definition process_batch :: "row list \<Rightarrow> string \<Rightarrow> error + (outcome \<times> string list)" where
  "process_batch df batch_name =
    (let batch_rows = filter (\<lambda>r. Batch r = batch_name) df in
     if length batch_rows \<noteq> 3
     then Inr (Skipped, [''Warning: Batch '' @ batch_name @ '' does not have exactly 3 rows. Skipping.''])
     else
     let total_unmodified = wrap64 (sum_list (map Unmodified batch_rows));
         total_modified = wrap64 (sum_list (map Modified batch_rows));
         total_discarded = wrap64 (sum_list (map Discarded batch_rows));
         total_reads = wrap64 (total_unmodified + total_modified + total_discarded);
         prime_edited_row = filter (\<lambda>r. Amplicon r = ''Prime-edited'') batch_rows
     in
     if length prime_edited_row \<noteq> 1
     then Inr (Skipped, [''Warning: Batch '' @ batch_name @
                         '' does not have exactly one 'Prime-edited' row. Skipping.''])
     else
     let scaffold_row = filter (\<lambda>r. Amplicon r = ''Scaffold-incorporated'') batch_rows in
     if length scaffold_row \<noteq> 1
     then Inr (Skipped, [''Warning: Batch '' @ batch_name @
                         '' does not have exactly one 'Scaffold-incorporated' row. Skipping.''])
     else
     let correct = fl_mul (np_true_divide (Unmodified (hd prime_edited_row)) total_reads) (Fin 100);
         incorrect = fl_mul (np_true_divide (Modified (hd prime_edited_row)) total_reads) (Fin 100);
         scaffold = fl_mul (np_true_divide (Modified (hd scaffold_row)) total_reads) (Fin 100)
     in
     bind_r (extract_batch_info batch_name) (\<lambda>((pe, p, r, rep, dc), printed).
       if p = None \<or> r = None \<or> rep = None
       then Inr (Skipped, printed @ [''Warning: Could not extract PBS, RTT, or replicate from batch ''
                                      @ batch_name @ ''. Skipping.''])
       else
       let d = \<lparr> prime_editor = pe, pbs = the p, rtt = the r, replicate = the rep,
                 correct_edits = correct, incorrect_edits = incorrect,
                 scaffold_incorporated = scaffold, drug_code = check_control dc \<rparr>
       in Inr (if pe = None then MissingPE d else Resolved d, printed)))"

text \<open>
  The state of the loop: the dictionaries \<open>batches\<close> and \<open>missing_pe_batches\<close>
  (insertion-ordered, so association lists updated with \<open>AList.update\<close>) and the
  printed lines.
\<close>

record loop_state =
  batches :: "(string \<times> batch_data) list"
  missing_pe_batches :: "(string \<times> batch_data) list"
  printed :: "string list"

definition record_outcome :: "string \<Rightarrow> outcome \<times> string list \<Rightarrow> loop_state \<Rightarrow> loop_state" where
  "record_outcome batch_name res st =
     (case fst res of
        Skipped \<Rightarrow> st\<lparr>printed := printed st @ snd res\<rparr>
      | Resolved d \<Rightarrow> st\<lparr>batches := AList.update batch_name d (batches st),
                          printed := printed st @ snd res\<rparr>
      | MissingPE d \<Rightarrow> st\<lparr>missing_pe_batches := AList.update batch_name d (missing_pe_batches st),
                           printed := printed st @ snd res\<rparr>)"

fun batch_loop :: "row list \<Rightarrow> string list \<Rightarrow> loop_state \<Rightarrow> error + loop_state" where
  "batch_loop df [] st = Inr st"
| "batch_loop df (n # ns) st =
     bind_r (process_batch df n) (\<lambda>res. batch_loop df ns (record_outcome n res st))"

text \<open>
  The operator: \<open>input()\<close> takes the next line of the operator's answers and raises
  \<open>EOFError\<close> when there is none. The loop with one prompt per batch:
\<close>

fun prompt_each :: "(string \<times> batch_data) list \<Rightarrow> string list \<Rightarrow> (string \<times> batch_data) list
                    \<Rightarrow> error + (string \<times> batch_data) list" where
  "prompt_each [] answers bs = Inr bs"
| "prompt_each ((n, d) # ms) [] bs = Inl EOFError"
| "prompt_each ((n, d) # ms) (a # answers) bs =
     prompt_each ms answers (AList.update n (d\<lparr>prime_editor := Some a\<rparr>) bs)"

definition assign_all :: "string \<Rightarrow> (string \<times> batch_data) list \<Rightarrow> (string \<times> batch_data) list
                    \<Rightarrow> (string \<times> batch_data) list" where
  "assign_all response ms bs =
     foldl (\<lambda>acc (n, d). AList.update n (d\<lparr>prime_editor := Some response\<rparr>) acc) bs ms"

definition resolve_missing :: "loop_state \<Rightarrow> string list \<Rightarrow> error + (string \<times> batch_data) list" where
  "resolve_missing st answers =
     (if missing_pe_batches st = [] then Inr (batches st)
      else case answers of
             [] \<Rightarrow> Inl EOFError
           | response # rest \<Rightarrow>
               if py_lower response = ''different''
               then prompt_each (missing_pe_batches st) rest (batches st)
               else Inr (assign_all response (missing_pe_batches st) (batches st)))"

text \<open>\<open>process_data\<close> on the rows of the table and the operator's answers.\<close>

definition process_data :: "row list \<Rightarrow> string list \<Rightarrow> error + (string \<times> batch_data) list" where
  "process_data df answers =
     bind_r (batch_loop df (unique (map Batch df)) \<lparr>batches = [], missing_pe_batches = [], printed = []\<rparr>)
       (\<lambda>st. resolve_missing st answers)"

text \<open>What the loop body recorded for a batch, read off its result.\<close>

definition resolved_of :: "error + (outcome \<times> string list) \<Rightarrow> batch_data option" where
  "resolved_of res = (case res of Inr (Resolved d, out) \<Rightarrow> Some d | _ \<Rightarrow> None)"

definition missing_of :: "error + (outcome \<times> string list) \<Rightarrow> batch_data option" where
  "missing_of res = (case res of Inr (MissingPE d, out) \<Rightarrow> Some d | _ \<Rightarrow> None)"

text \<open>
  \<open>get_or_create_drug\<close> works on the cache of this run, the drugs table (identifier,
  name, description; listed in the order of the table) and the lines the operator will
  type. No drug code gives the identifier of the reserved drug \<open>None\<close> at once; a
  code seen before comes from the cache. Otherwise the operator is asked until a line
  reads as a number from 0 to the number of listed drugs: 0 creates a drug from two
  more lines (name and description) under the fresh identifier \<open>fresh\<close>, the value
  of the one call of \<open>uuid4\<close>; \<open>k\<close> takes the \<open>k\<close>-th listed drug. The result
  is cached under the code. What is printed is left out.
\<close>

definition no_drug_id :: string where
  "no_drug_id = ''00000000-0000-0000-0000-000000000000''"

record drug_state =
  drug_cache :: "(string \<times> string) list"
  drugs_table :: "(string \<times> string \<times> string) list"
  pending_input :: "string list"

fun read_selection :: "nat \<Rightarrow> string list \<Rightarrow> error + (int \<times> string list)" where
  "read_selection k [] = Inl EOFError"
| "read_selection k (a # rest) =
     (case py_int a of
        Inr selection \<Rightarrow> if 0 \<le> selection \<and> selection \<le> int k then Inr (selection, rest)
                          else read_selection k rest
      | Inl e \<Rightarrow> read_selection k rest)"

definition get_or_create_drug :: "string \<Rightarrow> string option \<Rightarrow> drug_state \<Rightarrow> error + (string \<times> drug_state)" where
  "get_or_create_drug fresh dc st =
     (case dc of
        None \<Rightarrow> Inr (no_drug_id, st)
      | Some c \<Rightarrow>
          (case map_of (drug_cache st) c of
             Some drug_id \<Rightarrow> Inr (drug_id, st)
           | None \<Rightarrow>
               bind_r (read_selection (length (drugs_table st)) (pending_input st)) (\<lambda>(selection, rest).
                 if selection = 0
                 then (case rest of
                         drug_name # drug_description # rest' \<Rightarrow>
                           Inr (fresh, st\<lparr>drug_cache := AList.update c fresh (drug_cache st),
                                          drugs_table := drugs_table st @ [(fresh, drug_name, drug_description)],
                                          pending_input := rest'\<rparr>)
                       | _ \<Rightarrow> Inl EOFError)
                 else let drug_id = fst (drugs_table st ! (nat selection - 1))
                      in Inr (drug_id, st\<lparr>drug_cache := AList.update c drug_id (drug_cache st),
                                            pending_input := rest\<rparr>))))"

text \<open>The rows of the worked example: counts (80,10,10), (5,3,2), (2,1,7).\<close>

definition example_rows :: "row list" where
  "example_rows =
    [\<lparr>Batch = ''XPE2_P5_R10_Rep2'', Amplicon = ''Edited'', Unmodified = 80, Modified = 10, Discarded = 10\<rparr>,
     \<lparr>Batch = ''XPE2_P5_R10_Rep2'', Amplicon = ''Prime-edited'', Unmodified = 5, Modified = 3, Discarded = 2\<rparr>,
     \<lparr>Batch = ''XPE2_P5_R10_Rep2'', Amplicon = ''Scaffold-incorporated'', Unmodified = 2, Modified = 1, Discarded = 7\<rparr>]"

text \<open>The total read count of a batch as the wrapped sum over its rows, and a
  percentage of it, as the loop body computes them.\<close>

definition batch_total :: "row list \<Rightarrow> string \<Rightarrow> int" where
  "batch_total df n =
     wrap64 (sum_list (map (\<lambda>r. Unmodified r + Modified r + Discarded r) (filter (\<lambda>r. Batch r = n) df)))"

definition pct :: "int \<Rightarrow> int \<Rightarrow> float64" where
  "pct count total_reads = fl_mul (np_true_divide count total_reads) (Fin 100)"


text \<open>A batch whose three rows have no reads at all, two batches whose names have no
  prime editor, and a control batch.\<close>

definition zero_rows :: "row list" where
  "zero_rows =
    [\<lparr>Batch = ''XPE2_P5_R10_Rep2'', Amplicon = ''Edited'', Unmodified = 0, Modified = 0, Discarded = 0\<rparr>,
     \<lparr>Batch = ''XPE2_P5_R10_Rep2'', Amplicon = ''Prime-edited'', Unmodified = 0, Modified = 0, Discarded = 0\<rparr>,
     \<lparr>Batch = ''XPE2_P5_R10_Rep2'', Amplicon = ''Scaffold-incorporated'', Unmodified = 0, Modified = 0, Discarded = 0\<rparr>]"


definition ctrl_rows :: "row list" where
  "ctrl_rows =
    [\<lparr>Batch = ''X_PE2_P5R10_ctrl'', Amplicon = ''Edited'', Unmodified = 80, Modified = 10, Discarded = 10\<rparr>,
     \<lparr>Batch = ''X_PE2_P5R10_ctrl'', Amplicon = ''Prime-edited'', Unmodified = 8, Modified = 4, Discarded = 4\<rparr>,
     \<lparr>Batch = ''X_PE2_P5R10_ctrl'', Amplicon = ''Scaffold-incorporated'', Unmodified = 4, Modified = 2, Discarded = 6\<rparr>]"

text \<open>The drugs table as \<open>setup_database\<close> leaves it, and the operator picking its
  first entry.\<close>

definition initial_drug_state :: drug_state where
  "initial_drug_state =
     \<lparr>drug_cache = [], drugs_table = [(no_drug_id, ''None'', ''No drug used'')], pending_input = [''1'']\<rparr>"

section \<open>Heat-map data (visualisation\_tools/heatmap.py)\<close>

text \<open>
  A value of a fetched column and a fetched row (a tuple). Unpacking a row into \<open>n\<close>
  names raises \<open>ValueError\<close> unless the row has \<open>n\<close> columns. A stored number is
  a finite float64; arithmetic on a text or a null raises \<open>TypeError\<close>.
\<close>

datatype sqlval = SText string | SInt int | SReal real | SNull

definition unpack :: "nat \<Rightarrow> sqlval list \<Rightarrow> error + sqlval list" where
  "unpack k r = (if length r = k then Inr r else Inl ValueError)"

definition num_of :: "sqlval \<Rightarrow> error + float64" where
  "num_of v = (case v of SReal x \<Rightarrow> Inr (round64 x) | SInt i \<Rightarrow> Inr (round64 (real_of_int i))
                | _ \<Rightarrow> Inl TypeError)"

fun fl_add :: "float64 \<Rightarrow> float64 \<Rightarrow> float64" where
  "fl_add (Fin a) (Fin b) = round64 (a + b)"
| "fl_add NaN y = NaN"
| "fl_add x NaN = NaN"
| "fl_add PInf NInf = NaN"
| "fl_add NInf PInf = NaN"
| "fl_add PInf y = PInf"
| "fl_add NInf y = NInf"
| "fl_add x PInf = PInf"
| "fl_add x NInf = NInf"

fun fl_div :: "float64 \<Rightarrow> float64 \<Rightarrow> float64" where
  "fl_div (Fin a) (Fin b) = (if b = 0 then inf_of_sign (fl_sign (Fin a)) else round64 (a / b))"
| "fl_div NaN y = NaN"
| "fl_div x NaN = NaN"
| "fl_div (Fin a) y = Fin 0"
| "fl_div x (Fin b) = inf_of_sign (fl_sign x * (if b < 0 then -1 else 1))"
| "fl_div x y = NaN"

fun fl_gt :: "float64 \<Rightarrow> float64 \<Rightarrow> bool" where
  "fl_gt (Fin a) (Fin b) = (b < a)"
| "fl_gt NaN y = False"
| "fl_gt x NaN = False"
| "fl_gt PInf y = (y \<noteq> PInf)"
| "fl_gt x NInf = (x \<noteq> NInf)"
| "fl_gt x y = False"

text \<open>\<open>np.mean\<close> of a list of floats, summed from left to right and divided by the
  length; of an empty list it is \<open>nan\<close>.\<close>

definition np_mean :: "float64 list \<Rightarrow> float64" where
  "np_mean xs = fl_div (foldl fl_add (Fin 0) xs) (Fin (real (length xs)))"

definition py_mul :: "sqlval \<Rightarrow> float64 \<Rightarrow> error + float64" where
  "py_mul v f = bind_r (num_of v) (\<lambda>x. Inr (fl_mul x f))"

type_synonym hkey = "sqlval \<times> sqlval \<times> string"

type_synonym 'v heat = "(hkey \<times> ((int \<times> int) \<times> 'v) list) list"

text \<open>\<open>heatmap_data[key][pos].append(v)\<close> on the dictionary of dictionaries of lists.\<close>

definition dd_append :: "hkey \<Rightarrow> int \<times> int \<Rightarrow> float64 \<Rightarrow> float64 list heat \<Rightarrow> float64 list heat" where
  "dd_append k pos v h =
     (let inner = (case map_of h k of None \<Rightarrow> [] | Some m \<Rightarrow> m);
          vals = (case map_of inner pos of None \<Rightarrow> [] | Some vs \<Rightarrow> vs)
      in AList.update k (AList.update pos (vals @ [v]) inner) h)"

text \<open>Lines 157 to 161: which runs have which (PBS, RTT); the loop unpacks each row
  into seven names.\<close>

definition add_run :: "int \<times> int \<Rightarrow> sqlval \<Rightarrow> ((int \<times> int) \<times> sqlval list) list
                        \<Rightarrow> ((int \<times> int) \<times> sqlval list) list" where
  "add_run pos run_id acc =
     AList.update pos (List.insert run_id (case map_of acc pos of None \<Rightarrow> [] | Some rs \<Rightarrow> rs)) acc"

fun collect_runs :: "(sqlval \<times> int \<times> int) list \<Rightarrow> sqlval list list
     \<Rightarrow> ((int \<times> int) \<times> sqlval list) list \<Rightarrow> error + ((int \<times> int) \<times> sqlval list) list" where
  "collect_runs entries [] acc = Inr acc"
| "collect_runs entries (r # rest) acc =
     bind_r (unpack 7 r) (\<lambda>cols.
       case map_of entries (cols ! 0) of
         Some pos \<Rightarrow> collect_runs entries rest (add_run pos (cols ! 6) acc)
       | None \<Rightarrow> collect_runs entries rest acc)"

text \<open>Lines 180 to 190: the reference values of one run, again unpacking into seven
  names, and the factor of every run that has some.\<close>

fun ref_values_of :: "(sqlval \<times> int \<times> int) list \<Rightarrow> int \<times> int \<Rightarrow> sqlval \<Rightarrow> sqlval list list
     \<Rightarrow> error + sqlval list" where
  "ref_values_of entries norm_pos run_id [] = Inr []"
| "ref_values_of entries norm_pos run_id (r # rest) =
     bind_r (unpack 7 r) (\<lambda>cols.
     bind_r (ref_values_of entries norm_pos run_id rest) (\<lambda>others.
       Inr (if cols ! 6 = run_id \<and> map_of entries (cols ! 0) = Some norm_pos
            then cols ! 1 # others else others)))"

fun mapM_num :: "sqlval list \<Rightarrow> error + float64 list" where
  "mapM_num [] = Inr []"
| "mapM_num (v # vs) = bind_r (num_of v) (\<lambda>x. bind_r (mapM_num vs) (\<lambda>xs. Inr (x # xs)))"

fun run_factors :: "(sqlval \<times> int \<times> int) list \<Rightarrow> int \<times> int \<Rightarrow> sqlval list list \<Rightarrow> sqlval list
     \<Rightarrow> (sqlval \<times> float64) list \<Rightarrow> error + (sqlval \<times> float64) list" where
  "run_factors entries norm_pos dps [] acc = Inr acc"
| "run_factors entries norm_pos dps (run_id # others) acc =
     bind_r (ref_values_of entries norm_pos run_id dps) (\<lambda>ref_values.
       if ref_values \<noteq> []
       then bind_r (mapM_num ref_values) (\<lambda>xs.
              run_factors entries norm_pos dps others (AList.update run_id (np_mean xs) acc))
       else run_factors entries norm_pos dps others acc)"

text \<open>Lines 197 to 210: every row is unpacked into eight names, scaled and appended
  under each of the three metrics.\<close>

fun fill_heatmap :: "(sqlval \<times> int \<times> int) list \<Rightarrow> (sqlval \<times> sqlval) list \<Rightarrow> bool
     \<Rightarrow> (sqlval \<times> float64) list \<Rightarrow> float64 \<Rightarrow> sqlval list list \<Rightarrow> float64 list heat
     \<Rightarrow> error + float64 list heat" where
  "fill_heatmap entries drugs normalize_flag factors global_factor [] h = Inr h"
| "fill_heatmap entries drugs normalize_flag factors global_factor (r # rest) h =
     bind_r (unpack 8 r) (\<lambda>cols.
       case map_of entries (cols ! 0) of
         None \<Rightarrow> fill_heatmap entries drugs normalize_flag factors global_factor rest h
       | Some pos \<Rightarrow>
           let norm_factor =
                 (case map_of factors (cols ! 6) of
                    Some f \<Rightarrow> if normalize_flag \<and> fl_gt f (Fin 0) then fl_div global_factor f else Fin 1
                  | None \<Rightarrow> Fin 1);
               editor = cols ! 4;
               drug_name = (case map_of drugs (cols ! 7) of Some nm \<Rightarrow> nm | None \<Rightarrow> SText ''Unknown'')
           in
           bind_r (py_mul (cols ! 1) norm_factor) (\<lambda>correct.
           bind_r (py_mul (cols ! 2) norm_factor) (\<lambda>incorrect.
           bind_r (py_mul (cols ! 3) norm_factor) (\<lambda>scaffold.
             fill_heatmap entries drugs normalize_flag factors global_factor rest
               (dd_append (editor, drug_name, ''scaffold_incorporated'') pos scaffold
                 (dd_append (editor, drug_name, ''incorrect_edits'') pos incorrect
                   (dd_append (editor, drug_name, ''correct_edits'') pos correct h)))))))"

datatype message = NoCommonCombination | NormalizingWith int int

text \<open>
  \<open>get_experiment_data\<close> after its queries: the fetched drugs, runs (identifier and
  name), the selected run identifiers, the experiment entries (identifier to (PBS, RTT))
  and the fetched data points, each a row of the eight columns that the query selects.
  The result is the averaged data with the drugs, the runs and the messages printed.
  \<open>global_factor\<close> is read only for a run that has a factor.
\<close>

definition get_experiment_data ::
  "(sqlval \<times> sqlval) list \<Rightarrow> (sqlval \<times> sqlval) list \<Rightarrow> sqlval list \<Rightarrow> (sqlval \<times> int \<times> int) list
     \<Rightarrow> sqlval list list \<Rightarrow> bool
     \<Rightarrow> error + (float64 heat \<times> (sqlval \<times> sqlval) list \<times> (sqlval \<times> sqlval) list \<times> message list)" where
  "get_experiment_data drug_rows all_runs selected_runs entries data_points normalize_flag =
    (let drugs = (if drug_rows = [] then [(SText no_drug_id, SText ''None'')] else drug_rows);
         runs = (if selected_runs \<noteq> []
                 then filter (\<lambda>(run_id, name). run_id \<in> set selected_runs) all_runs else all_runs)
     in
     bind_r (if normalize_flag
             then bind_r (collect_runs entries data_points []) (\<lambda>pbs_rtt_in_runs.
                    let common_pbs_rtt =
                          map fst (filter (\<lambda>(combo, run_set). set run_set = set (map fst runs))
                                          pbs_rtt_in_runs)
                    in if common_pbs_rtt = [] then Inr (False, (0, 0), [NoCommonCombination])
                       else Inr (True, hd common_pbs_rtt,
                                 [NormalizingWith (fst (hd common_pbs_rtt)) (snd (hd common_pbs_rtt))]))
             else Inr (False, (0, 0), []))
       (\<lambda>(normalize_on, norm_pos, out).
     bind_r (if normalize_on then run_factors entries norm_pos data_points (map fst runs) [] else Inr [])
       (\<lambda>run_normalization_factors.
     let global_factor = np_mean (map snd run_normalization_factors) in
     bind_r (fill_heatmap entries drugs normalize_on run_normalization_factors global_factor data_points [])
       (\<lambda>heatmap_data.
     Inr (map (\<lambda>(key, vals). (key, map (\<lambda>(pos, vs). (pos, np_mean vs)) vals)) heatmap_data,
          drugs, runs, out)))))"

text \<open>\<open>create_heatmaps\<close>, up to the matrix: the sorted distinct PBS and RTT values of
  one key and the matrix filled with \<open>nan\<close> where the key has no value.\<close>

definition heatmap_matrix :: "((int \<times> int) \<times> float64) list \<Rightarrow> int list \<times> int list \<times> float64 list list" where
  "heatmap_matrix m =
     (let positions = map fst m;
          pbs_values = sort (remdups (map fst positions));
          rtt_values = sort (remdups (map snd positions))
      in (pbs_values, rtt_values,
          map (\<lambda>p. map (\<lambda>r. case map_of m (p, r) of Some v \<Rightarrow> v | None \<Rightarrow> NaN) rtt_values) pbs_values))"

text \<open>Two runs that share the coordinate (7, 7), with 40 and 50 percent correct edits
  there, and two runs that share no coordinate.\<close>

definition two_run_entries :: "(sqlval \<times> int \<times> int) list" where
  "two_run_entries = [(SText ''e77'', (7, 7)), (SText ''e88'', (8, 8))]"

definition two_runs :: "(sqlval \<times> sqlval) list" where
  "two_runs = [(SText ''run1'', SText ''first''), (SText ''run2'', SText ''second'')]"

definition shared_points :: "sqlval list list" where
  "shared_points =
    [[SText ''e77'', SReal 40, SReal 4, SReal 2, SText ''PE2'', SInt 1, SText ''run1'', SText no_drug_id],
     [SText ''e77'', SReal 50, SReal 5, SReal 1, SText ''PE2'', SInt 1, SText ''run2'', SText no_drug_id]]"

definition disjoint_points :: "sqlval list list" where
  "disjoint_points =
    [[SText ''e77'', SReal 40, SReal 4, SReal 2, SText ''PE2'', SInt 1, SText ''run1'', SText no_drug_id],
     [SText ''e88'', SReal 50, SReal 5, SReal 1, SText ''PE2'', SInt 1, SText ''run2'', SText no_drug_id]]"

definition replicate_points :: "sqlval list list" where
  "replicate_points =
    [[SText ''e77'', SReal 10, SReal 4, SReal 2, SText ''PE2'', SInt 1, SText ''run1'', SText no_drug_id],
     [SText ''e77'', SReal 12, SReal 5, SReal 1, SText ''PE2'', SInt 2, SText ''run1'', SText no_drug_id],
     [SText ''e77'', SReal 14, SReal 6, SReal 3, SText ''PE2'', SInt 3, SText ''run1'', SText no_drug_id],
     [SText ''e88'', SReal 20, SReal 6, SReal 3, SText ''PE2'', SInt 1, SText ''run1'', SText no_drug_id]]"

text \<open>
  For stating what the averaged data holds: a row as the query yields it (eight
  columns, the three metrics real numbers), what such a row contributes (a value under
  each of the three metrics at the coordinate of its entry, for its editor and the name
  of its drug), and the replicate values of a key at a coordinate.
\<close>

definition wf_row :: "sqlval list \<Rightarrow> bool" where
  "wf_row r = (case r of [eid, SReal c, SReal i, SReal s, ed, rp, rid, did] \<Rightarrow> True | _ \<Rightarrow> False)"

definition contributions :: "(sqlval \<times> int \<times> int) list \<Rightarrow> (sqlval \<times> sqlval) list \<Rightarrow> sqlval list
     \<Rightarrow> (hkey \<times> (int \<times> int) \<times> real) list" where
  "contributions entries drugs r =
     (case r of
        [eid, SReal c, SReal i, SReal s, ed, rp, rid, did] \<Rightarrow>
          (case map_of entries eid of
             None \<Rightarrow> []
           | Some pos \<Rightarrow>
               let dn = (case map_of drugs did of Some nm \<Rightarrow> nm | None \<Rightarrow> SText ''Unknown'')
               in [((ed, dn, ''correct_edits''), pos, c),
                   ((ed, dn, ''incorrect_edits''), pos, i),
                   ((ed, dn, ''scaffold_incorporated''), pos, s)])
      | _ \<Rightarrow> [])"

definition replicate_values :: "(sqlval \<times> int \<times> int) list \<Rightarrow> (sqlval \<times> sqlval) list \<Rightarrow> sqlval list list
     \<Rightarrow> hkey \<Rightarrow> int \<times> int \<Rightarrow> real list" where
  "replicate_values entries drugs dps k pos =
     map (\<lambda>(k', pos', v). v)
       (filter (\<lambda>(k', pos', v). k' = k \<and> pos' = pos) (concat (map (contributions entries drugs) dps)))"

definition lookup2 :: "(hkey \<times> ((int \<times> int) \<times> 'v) list) list \<Rightarrow> hkey \<Rightarrow> int \<times> int \<Rightarrow> 'v option" where
  "lookup2 h k pos = (case map_of h k of None \<Rightarrow> None | Some m \<Rightarrow> map_of m pos)"






section \<open>Properties of the loop and of the resolution step\<close>

lemma set_unique [simp]: "set (unique xs) = set xs"
  by (induction xs rule: unique.induct) auto

lemma distinct_unique [simp]: "distinct (unique xs)"
  by (induction xs rule: unique.induct) auto

lemma bind_r_Inr_iff: "bind_r m f = Inr y \<longleftrightarrow> (\<exists>x. m = Inr x \<and> f x = Inr y)"
  by (cases m) (simp_all add: bind_r_def)

lemma process_batch_in_df:
  assumes "process_batch df n = Inr (oc, out)" and "oc \<noteq> Skipped"
  shows "n \<in> set (map Batch df)"
proof -
  have "length (filter (\<lambda>r. Batch r = n) df) = 3"
    using assms by (auto simp: process_batch_def Let_def split: if_splits)
  then have "filter (\<lambda>r. Batch r = n) df \<noteq> []" by auto
  then show ?thesis by (auto simp: filter_empty_conv)
qed

lemma record_outcome_batches:
  "map_of (batches (record_outcome n res st)) =
     (case resolved_of (Inr res) of Some d \<Rightarrow> (map_of (batches st))(n \<mapsto> d) | None \<Rightarrow> map_of (batches st))"
  by (cases res; cases "fst res") (auto simp: record_outcome_def resolved_of_def update_conv')

lemma record_outcome_missing:
  "map_of (missing_pe_batches (record_outcome n res st)) =
     (case missing_of (Inr res) of Some d \<Rightarrow> (map_of (missing_pe_batches st))(n \<mapsto> d) | None \<Rightarrow> map_of (missing_pe_batches st))"
  by (cases res; cases "fst res") (auto simp: record_outcome_def missing_of_def update_conv')

lemma batch_loop_batches:
  "batch_loop df ns st = Inr st' \<Longrightarrow> distinct ns \<Longrightarrow>
   map_of (batches st') n =
     (if n \<in> set ns \<and> resolved_of (process_batch df n) \<noteq> None
      then resolved_of (process_batch df n) else map_of (batches st) n)"
proof (induction ns arbitrary: st)
  case Nil
  then show ?case by simp
next
  case (Cons m ns)
  from Cons.prems(1) obtain res where res: "process_batch df m = Inr res"
    and rest: "batch_loop df ns (record_outcome m res st) = Inr st'"
    by (auto simp: bind_r_Inr_iff)
  from Cons.prems(2) have d: "distinct ns" and mn: "m \<notin> set ns" by auto
  show ?case
    using Cons.IH[OF rest d] mn res
    by (auto simp: record_outcome_batches split: option.splits)
qed

lemma batch_loop_missing:
  "batch_loop df ns st = Inr st' \<Longrightarrow> distinct ns \<Longrightarrow>
   map_of (missing_pe_batches st') n =
     (if n \<in> set ns \<and> missing_of (process_batch df n) \<noteq> None
      then missing_of (process_batch df n) else map_of (missing_pe_batches st) n)"
proof (induction ns arbitrary: st)
  case Nil
  then show ?case by simp
next
  case (Cons m ns)
  from Cons.prems(1) obtain res where res: "process_batch df m = Inr res"
    and rest: "batch_loop df ns (record_outcome m res st) = Inr st'"
    by (auto simp: bind_r_Inr_iff)
  from Cons.prems(2) have d: "distinct ns" and mn: "m \<notin> set ns" by auto
  show ?case
    using Cons.IH[OF rest d] mn res
    by (auto simp: record_outcome_missing split: option.splits)
qed

lemma batch_loop_no_error:
  "batch_loop df ns st = Inr st' \<Longrightarrow> n \<in> set ns \<Longrightarrow> \<exists>res. process_batch df n = Inr res"
  by (induction ns arbitrary: st) (auto simp: bind_r_Inr_iff)

lemma batch_loop_distinct:
  "batch_loop df ns st = Inr st' \<Longrightarrow> distinct (map fst (missing_pe_batches st)) \<Longrightarrow>
   distinct (map fst (missing_pe_batches st'))"
proof (induction ns arbitrary: st)
  case Nil
  then show ?case by simp
next
  case (Cons m ns)
  from Cons.prems(1) obtain res where res: "process_batch df m = Inr res"
    and rest: "batch_loop df ns (record_outcome m res st) = Inr st'"
    by (auto simp: bind_r_Inr_iff)
  have "distinct (map fst (missing_pe_batches (record_outcome m res st)))"
    using Cons.prems(2) by (cases "fst res") (auto simp: record_outcome_def distinct_update)
  from Cons.IH[OF rest this] show ?case .
qed


lemma foldl_assign_map_of:
  "distinct (map fst ms) \<Longrightarrow>
   map_of (foldl (\<lambda>acc (n, d). AList.update n (d\<lparr>prime_editor := Some response\<rparr>) acc) bs ms) n =
     (case map_of ms n of Some d \<Rightarrow> Some (d\<lparr>prime_editor := Some response\<rparr>) | None \<Rightarrow> map_of bs n)"
proof (induction ms arbitrary: bs)
  case Nil
  then show ?case by simp
next
  case (Cons m ms)
  obtain k v where m: "m = (k, v)" by (cases m)
  from Cons.prems have d: "distinct (map fst ms)" and k: "k \<notin> fst ` set ms" by (auto simp: m)
  from k have none: "map_of ms k = None" by (simp add: map_of_eq_None_iff)
  show ?case
    using Cons.IH[OF d, of "AList.update k (v\<lparr>prime_editor := Some response\<rparr>) bs"] none
    by (auto simp: m update_conv' split: option.splits)
qed

lemma assign_all_map_of:
  "distinct (map fst ms) \<Longrightarrow>
   map_of (assign_all response ms bs) n =
     (case map_of ms n of Some d \<Rightarrow> Some (d\<lparr>prime_editor := Some response\<rparr>) | None \<Rightarrow> map_of bs n)"
  unfolding assign_all_def by (rule foldl_assign_map_of)

lemma prompt_each_map_of:
  "prompt_each ms answers bs = Inr bs' \<Longrightarrow> distinct (map fst ms) \<Longrightarrow>
   (case map_of ms n of
      Some d \<Rightarrow> (\<exists>a \<in> set answers. map_of bs' n = Some (d\<lparr>prime_editor := Some a\<rparr>))
    | None \<Rightarrow> map_of bs' n = map_of bs n)"
proof (induction ms answers bs rule: prompt_each.induct)
  case (1 answers bs)
  then show ?case by simp
next
  case (2 n d ms bs)
  then show ?case by simp
next
  case (3 k v ms a answers bs)
  from "3.prems" have rest: "prompt_each ms answers (AList.update k (v\<lparr>prime_editor := Some a\<rparr>) bs) = Inr bs'"
    and d: "distinct (map fst ms)" and k: "k \<notin> fst ` set ms" by auto
  from k have none: "map_of ms k = None" by (simp add: map_of_eq_None_iff)
  show ?case
    using "3.IH"[OF rest d] none
    by (auto simp: update_conv' split: option.splits)
qed

lemma process_data_split:
  assumes "process_data df answers = Inr bs"
  shows "\<exists>st. resolve_missing st answers = Inr bs
    \<and> (\<forall>n. map_of (batches st) n = resolved_of (process_batch df n))
    \<and> (\<forall>n. map_of (missing_pe_batches st) n = missing_of (process_batch df n))
    \<and> distinct (map fst (missing_pe_batches st))"
proof -
  from assms obtain st where
    loop: "batch_loop df (unique (map Batch df)) \<lparr>batches = [], missing_pe_batches = [], printed = []\<rparr> = Inr st"
    and res: "resolve_missing st answers = Inr bs"
    by (auto simp: process_data_def bind_r_Inr_iff)
  have in_df: "resolved_of (process_batch df n) = None \<and> missing_of (process_batch df n) = None"
    if "n \<notin> set (map Batch df)" for n
  proof -
    have "filter (\<lambda>r. Batch r = n) df = []" using that by (auto simp: filter_empty_conv)
    then show ?thesis by (simp add: process_batch_def resolved_of_def missing_of_def)
  qed
  have b: "map_of (batches st) n = resolved_of (process_batch df n)" for n
    using batch_loop_batches[OF loop, of n] in_df[of n] by (cases "n \<in> set (map Batch df)") auto
  have m: "map_of (missing_pe_batches st) n = missing_of (process_batch df n)" for n
    using batch_loop_missing[OF loop, of n] in_df[of n] by (cases "n \<in> set (map Batch df)") auto
  have d: "distinct (map fst (missing_pe_batches st))"
    using batch_loop_distinct[OF loop] by simp
  show ?thesis using res b m d by blast
qed

lemma resolved_missing_excl:
  "resolved_of r = Some d \<Longrightarrow> missing_of r = None"
  by (auto simp: resolved_of_def missing_of_def split: sum.splits outcome.splits prod.splits)

lemma process_data_resolved:
  assumes "process_data df answers = Inr bs" and "resolved_of (process_batch df n) = Some d"
  shows "map_of bs n = Some d"
proof -
  from assms(1) obtain st where res: "resolve_missing st answers = Inr bs"
    and b: "\<And>n. map_of (batches st) n = resolved_of (process_batch df n)"
    and m: "\<And>n. map_of (missing_pe_batches st) n = missing_of (process_batch df n)"
    and d: "distinct (map fst (missing_pe_batches st))"
    using process_data_split[OF assms(1)] by blast
  have none: "map_of (missing_pe_batches st) n = None"
    using m[of n] resolved_missing_excl[OF assms(2)] by simp
  show ?thesis
  proof (cases "missing_pe_batches st = []")
    case True
    with res b[of n] assms(2) show ?thesis by (simp add: resolve_missing_def)
  next
    case False
    with res obtain response rest where a: "answers = response # rest"
      by (cases answers) (auto simp: resolve_missing_def)
    show ?thesis
    proof (cases "py_lower response = ''different''")
      case True
      with res False a have "prompt_each (missing_pe_batches st) rest (batches st) = Inr bs"
        by (simp add: resolve_missing_def)
      from prompt_each_map_of[OF this d, of n] none b[of n] assms(2) show ?thesis by simp
    next
      case neq: False
      with res False a have "bs = assign_all response (missing_pe_batches st) (batches st)"
        by (simp add: resolve_missing_def)
      with assign_all_map_of[OF d, of response "batches st" n] none b[of n] assms(2)
      show ?thesis by simp
    qed
  qed
qed

lemma process_data_missing:
  assumes "process_data df answers = Inr bs" and "missing_of (process_batch df n) = Some d"
  shows "\<exists>a \<in> set answers. map_of bs n = Some (d\<lparr>prime_editor := Some a\<rparr>)"
    and "py_lower (hd answers) \<noteq> ''different'' \<Longrightarrow> map_of bs n = Some (d\<lparr>prime_editor := Some (hd answers)\<rparr>)"
proof -
  from assms(1) obtain st where res: "resolve_missing st answers = Inr bs"
    and m: "\<And>n. map_of (missing_pe_batches st) n = missing_of (process_batch df n)"
    and d: "distinct (map fst (missing_pe_batches st))"
    using process_data_split[OF assms(1)] by blast
  have some: "map_of (missing_pe_batches st) n = Some d"
    using m[of n] assms(2) by simp
  then have ne: "missing_pe_batches st \<noteq> []" by auto
  with res obtain response rest where a: "answers = response # rest"
    by (cases answers) (auto simp: resolve_missing_def)
  show "\<exists>a \<in> set answers. map_of bs n = Some (d\<lparr>prime_editor := Some a\<rparr>)"
  proof (cases "py_lower response = ''different''")
    case True
    with res ne a have "prompt_each (missing_pe_batches st) rest (batches st) = Inr bs"
      by (simp add: resolve_missing_def)
    from prompt_each_map_of[OF this d, of n] some a show ?thesis by auto
  next
    case False
    with res ne a have "bs = assign_all response (missing_pe_batches st) (batches st)"
      by (simp add: resolve_missing_def)
    with assign_all_map_of[OF d, of response "batches st" n] some a
    show ?thesis by simp
  qed
  show "map_of bs n = Some (d\<lparr>prime_editor := Some (hd answers)\<rparr>)" if "py_lower (hd answers) \<noteq> ''different''"
  proof -
    from that res ne a have "bs = assign_all response (missing_pe_batches st) (batches st)"
      by (simp add: resolve_missing_def)
    with assign_all_map_of[OF d, of response "batches st" n] some a
    show ?thesis by simp
  qed
qed

lemma process_data_skipped:
  assumes "process_data df answers = Inr bs"
    and "resolved_of (process_batch df n) = None" and "missing_of (process_batch df n) = None"
  shows "map_of bs n = None"
proof -
  from assms(1) obtain st where res: "resolve_missing st answers = Inr bs"
    and b: "\<And>n. map_of (batches st) n = resolved_of (process_batch df n)"
    and m: "\<And>n. map_of (missing_pe_batches st) n = missing_of (process_batch df n)"
    and d: "distinct (map fst (missing_pe_batches st))"
    using process_data_split[OF assms(1)] by blast
  have none: "map_of (missing_pe_batches st) n = None" "map_of (batches st) n = None"
    using m[of n] b[of n] assms by simp_all
  show ?thesis
  proof (cases "missing_pe_batches st = []")
    case True
    with res none show ?thesis by (simp add: resolve_missing_def)
  next
    case False
    with res obtain response rest where a: "answers = response # rest"
      by (cases answers) (auto simp: resolve_missing_def)
    show ?thesis
    proof (cases "py_lower response = ''different''")
      case True
      with res False a have "prompt_each (missing_pe_batches st) rest (batches st) = Inr bs"
        by (simp add: resolve_missing_def)
      from prompt_each_map_of[OF this d, of n] none show ?thesis by simp
    next
      case neq: False
      with res False a have "bs = assign_all response (missing_pe_batches st) (batches st)"
        by (simp add: resolve_missing_def)
      with assign_all_map_of[OF d, of response "batches st" n] none
      show ?thesis by simp
    qed
  qed
qed

section \<open>The literal batch names\<close>

text \<open>
  C6. On the four literal names, \<open>extract_batch_info\<close> returns exactly
  (PE2, 5, 10, 2, no drug) for \<open>XPE2_P5_R10_Rep2\<close>, (no editor, 5, 10, 2, no drug) for
  \<open>X_P5_R10_Rep2\<close>, (PE2, 5, 10, 1, drugA) for \<open>X_PE2_P5R10_drugA\<close> and
  (PE2, 5, 10, 1, ctrl) for \<open>X_PE2_P5R10_ctrl\<close>, printing nothing. Each result is
  decided by the first template that matches: the first name matches template 1, the
  second matches template 3 after templates 1 and 2 failed, and the last two match only
  the template without a replicate suffix, the one branch that sets the replicate to 1.
\<close>

theorem extract_batch_info_literals:
  "extract_batch_info ''XPE2_P5_R10_Rep2'' = Inr ((Some ''PE2'', Some 5, Some 10, Some 2, None), [])
   \<and> extract_batch_info ''X_P5_R10_Rep2'' = Inr ((None, Some 5, Some 10, Some 2, None), [])
   \<and> extract_batch_info ''X_PE2_P5R10_drugA'' = Inr ((Some ''PE2'', Some 5, Some 10, Some 1, Some ''drugA''), [])
   \<and> extract_batch_info ''X_PE2_P5R10_ctrl'' = Inr ((Some ''PE2'', Some 5, Some 10, Some 1, Some ''ctrl''), [])
   \<and> re_match pattern1 ''XPE2_P5_R10_Rep2'' = Some [''PE2'', ''5'', ''10'', ''2'']
   \<and> map (\<lambda>p. re_match p ''X_P5_R10_Rep2'') [pattern1, pattern2, pattern3]
       = [None, None, Some [''5'', ''10'', ''2'']]
   \<and> map (\<lambda>p. re_match p ''X_PE2_P5R10_drugA'')
         [pattern1, pattern2, pattern3, pattern4, pattern_drug_rep, pattern_drug]
       = [None, None, None, None, None, Some [''PE2'', ''5'', ''10'', ''drugA'']]
   \<and> map (\<lambda>p. re_match p ''X_PE2_P5R10_ctrl'')
         [pattern1, pattern2, pattern3, pattern4, pattern_drug_rep, pattern_drug]
       = [None, None, None, None, None, Some [''PE2'', ''5'', ''10'', ''ctrl'']]"
  by code_simp

lemma wrap64_mod: "wrap64 x mod 2 ^ 64 = x mod 2 ^ 64"
proof -
  have "((x + 2 ^ 63) mod 2 ^ 64 - 2 ^ 63) mod 2 ^ 64 = (x + 2 ^ 63 - 2 ^ 63) mod (2 ^ 64 :: int)"
    by (rule mod_diff_left_eq)
  then show ?thesis by (simp add: wrap64_def)
qed

lemma wrap64_cong: "x mod 2 ^ 64 = y mod 2 ^ 64 \<Longrightarrow> wrap64 x = wrap64 y"
proof -
  assume "x mod 2 ^ 64 = y mod 2 ^ 64"
  then have "(x + 2 ^ 63) mod 2 ^ 64 = (y + 2 ^ 63) mod (2 ^ 64 :: int)"
    by (rule mod_add_cong) simp
  then show ?thesis by (simp only: wrap64_def)
qed

lemma wrap64_add3: "wrap64 (wrap64 a + wrap64 b + wrap64 c) = wrap64 (a + b + c)"
  by (rule wrap64_cong) (intro mod_add_cong wrap64_mod)

lemma sum_list_counts:
  "sum_list (map (\<lambda>r. Unmodified r + Modified r + Discarded r) rows) =
   sum_list (map Unmodified rows) + sum_list (map Modified rows) + sum_list (map Discarded rows)"
  by (induction rows) auto

lemma length_one_hd: "length xs = Suc 0 \<Longrightarrow> xs = [hd xs]"
  by (cases xs) auto


lemma process_batch_valid:
  assumes "length (filter (\<lambda>r. Batch r = n) df) = 3"
    and "filter (\<lambda>r. Amplicon r = ''Prime-edited'') (filter (\<lambda>r. Batch r = n) df) = [pr]"
    and "filter (\<lambda>r. Amplicon r = ''Scaffold-incorporated'') (filter (\<lambda>r. Batch r = n) df) = [sr]"
  shows "process_batch df n =
     bind_r (extract_batch_info n) (\<lambda>((pe, p, r, rep, dc), printed).
       if p = None \<or> r = None \<or> rep = None
       then Inr (Skipped, printed @ [''Warning: Could not extract PBS, RTT, or replicate from batch ''
                                      @ n @ ''. Skipping.''])
       else
       let d = \<lparr> prime_editor = pe, pbs = the p, rtt = the r, replicate = the rep,
                 correct_edits = pct (Unmodified pr) (batch_total df n),
                 incorrect_edits = pct (Modified pr) (batch_total df n),
                 scaffold_incorporated = pct (Modified sr) (batch_total df n),
                 drug_code = check_control dc \<rparr>
       in Inr (if pe = None then MissingPE d else Resolved d, printed))"
  unfolding process_batch_def Let_def batch_total_def pct_def sum_list_counts wrap64_add3
  using assms by (simp del: filter_filter cong: if_cong)

lemma process_batch_recorded:
  assumes "process_batch df n = Inr (oc, out)" and "oc = Resolved d \<or> oc = MissingPE d"
  shows "\<exists>pr sr pe p r rep dc.
      length (filter (\<lambda>r. Batch r = n) df) = 3
    \<and> filter (\<lambda>r. Amplicon r = ''Prime-edited'') (filter (\<lambda>r. Batch r = n) df) = [pr]
    \<and> filter (\<lambda>r. Amplicon r = ''Scaffold-incorporated'') (filter (\<lambda>r. Batch r = n) df) = [sr]
    \<and> extract_batch_info n = Inr ((pe, Some p, Some r, Some rep, dc), out)
    \<and> (oc = Resolved d \<longleftrightarrow> pe \<noteq> None)
    \<and> d = \<lparr> prime_editor = pe, pbs = p, rtt = r, replicate = rep,
            correct_edits = pct (Unmodified pr) (batch_total df n),
            incorrect_edits = pct (Modified pr) (batch_total df n),
            scaffold_incorporated = pct (Modified sr) (batch_total df n),
            drug_code = check_control dc \<rparr>"
proof -
  let ?rows = "filter (\<lambda>r. Batch r = n) df"
  let ?pe = "filter (\<lambda>r. Amplicon r = ''Prime-edited'') ?rows"
  let ?sr = "filter (\<lambda>r. Amplicon r = ''Scaffold-incorporated'') ?rows"
  from assms have l3: "length ?rows = 3"
    by (auto simp: process_batch_def Let_def split: if_splits)
  from assms l3 have l1: "length ?pe = Suc 0"
    by (auto simp: process_batch_def Let_def split: if_splits)
  from assms l3 l1 have l2: "length ?sr = Suc 0"
    by (auto simp: process_batch_def Let_def split: if_splits)
  have pe: "?pe = [hd ?pe]" using l1 by (rule length_one_hd)
  have sr: "?sr = [hd ?sr]" using l2 by (rule length_one_hd)
  note pb = process_batch_valid[OF l3 pe sr]
  from assms(1) obtain info printed where ex: "extract_batch_info n = Inr (info, printed)"
    unfolding pb by (auto simp: bind_r_Inr_iff)
  obtain pe0 p r rep dc where info: "info = (pe0, p, r, rep, dc)" by (cases info)
  from assms ex info have "p \<noteq> None \<and> r \<noteq> None \<and> rep \<noteq> None \<and> out = printed
     \<and> (oc = Resolved d \<longleftrightarrow> pe0 \<noteq> None)
     \<and> d = \<lparr> prime_editor = pe0, pbs = the p, rtt = the r, replicate = the rep,
            correct_edits = pct (Unmodified (hd ?pe)) (batch_total df n),
            incorrect_edits = pct (Modified (hd ?pe)) (batch_total df n),
            scaffold_incorporated = pct (Modified (hd ?sr)) (batch_total df n),
            drug_code = check_control dc \<rparr>"
    unfolding pb by (auto simp: bind_r_def Let_def split: if_splits)
  with l3 pe sr ex info show ?thesis by (metis option.collapse)
qed

lemma pct_zero: "pct c 0 = (if c = 0 then NaN else if 0 < c then PInf else NInf)"
  by (simp add: pct_def np_true_divide_def inf_of_sign_def)

lemma process_data_lookup_cases:
  assumes "process_data df answers = Inr bs" and "map_of bs n = Some d"
  shows "\<exists>d0 oc out. process_batch df n = Inr (oc, out) \<and> (oc = Resolved d0 \<or> oc = MissingPE d0)
     \<and> (oc = Resolved d0 \<longrightarrow> d = d0) \<and> (oc = MissingPE d0 \<longrightarrow> (\<exists>a \<in> set answers. d = d0\<lparr>prime_editor := Some a\<rparr>))"
proof (cases "resolved_of (process_batch df n)")
  case (Some d0)
  then obtain out where "process_batch df n = Inr (Resolved d0, out)"
    by (auto simp: resolved_of_def split: sum.splits prod.splits outcome.splits)
  moreover have "d = d0" using process_data_resolved[OF assms(1) Some] assms(2) by simp
  ultimately show ?thesis by auto
next
  case None
  show ?thesis
  proof (cases "missing_of (process_batch df n)")
    case (Some d0)
    then obtain out where "process_batch df n = Inr (MissingPE d0, out)"
      by (auto simp: missing_of_def split: sum.splits prod.splits outcome.splits)
    moreover have "\<exists>a \<in> set answers. d = d0\<lparr>prime_editor := Some a\<rparr>"
      using process_data_missing(1)[OF assms(1) Some] assms(2) by auto
    ultimately show ?thesis by auto
  next
    case none: None
    from process_data_skipped[OF assms(1) None none] assms(2) show ?thesis by simp
  qed
qed

section \<open>Metric aggregation\<close>

lemma process_batch_parsed:
  assumes "length (filter (\<lambda>r. Batch r = n) df) = 3"
    and "filter (\<lambda>r. Amplicon r = ''Prime-edited'') (filter (\<lambda>r. Batch r = n) df) = [pr]"
    and "filter (\<lambda>r. Amplicon r = ''Scaffold-incorporated'') (filter (\<lambda>r. Batch r = n) df) = [sr]"
    and "extract_batch_info n = Inr ((pe, Some p, Some r, Some rep, dc), out)"
    and "d = \<lparr> prime_editor = pe, pbs = p, rtt = r, replicate = rep,
                 correct_edits = pct (Unmodified pr) (batch_total df n),
                 incorrect_edits = pct (Modified pr) (batch_total df n),
                 scaffold_incorporated = pct (Modified sr) (batch_total df n),
                 drug_code = check_control dc \<rparr>"
  shows "process_batch df n = Inr (if pe = None then MissingPE d else Resolved d, out)"
  using process_batch_valid[OF assms(1,2,3)]
  by (simp add: assms(4,5) bind_r_def Let_def)

lemma recorded_batch_returned:
  assumes "process_batch df n = Inr (if pe = None then MissingPE d else Resolved d, out)"
    and "process_data df answers = Inr bs"
  shows "\<exists>d'. map_of bs n = Some d' \<and> correct_edits d' = correct_edits d
              \<and> incorrect_edits d' = incorrect_edits d \<and> scaffold_incorporated d' = scaffold_incorporated d
              \<and> drug_code d' = drug_code d \<and> pbs d' = pbs d \<and> rtt d' = rtt d \<and> replicate d' = replicate d"
proof (cases "pe = None")
  case True
  with assms(1) have "missing_of (process_batch df n) = Some d" by (simp add: missing_of_def)
  from process_data_missing(1)[OF assms(2) this] show ?thesis by auto
next
  case False
  with assms(1) have "resolved_of (process_batch df n) = Some d" by (simp add: resolved_of_def)
  from process_data_resolved[OF assms(2) this] show ?thesis by auto
qed

text \<open>
  C1, as stated, fails on its own example. For the rows (80,10,10), (5,3,2), (2,1,7)
  the total is 120 and the batch is returned with correct\_edits (5/120)*100, which in
  float64 is 4.166666666666666 (2345624805922133 / 2^49), while 100*5/120 is
  4.166666666666667 (4691249611844267 / 2^50); the other two values, 2.5 and
  0.8333333333333334, are those of 100*3/120 and 100*1/120.
\<close>

theorem example_correct_pct_differs:
  "process_data example_rows [] =
     Inr [(''XPE2_P5_R10_Rep2'',
           \<lparr> prime_editor = Some ''PE2'', pbs = 5, rtt = 10, replicate = 2,
             correct_edits = Fin (2345624805922133 / 2 ^ 49), incorrect_edits = Fin (5 / 2),
             scaffold_incorporated = Fin (7505999378950827 / 2 ^ 53), drug_code = None \<rparr>)]
   \<and> np_true_divide (100 * 5) 120 = Fin (4691249611844267 / 2 ^ 50)
   \<and> Fin (2345624805922133 / 2 ^ 49) \<noteq> Fin (4691249611844267 / 2 ^ 50)
   \<and> np_true_divide (100 * 3) 120 = Fin (5 / 2)
   \<and> np_true_divide (100 * 1) 120 = Fin (7505999378950827 / 2 ^ 53)"
  by code_simp

text \<open>
  C1, amended. For every batch whose group has exactly 3 rows, one of them Prime-edited
  and one Scaffold-incorporated, and whose name parses, the loop body records, with
  total = the sum of Unmodified + Modified + Discarded over the 3 rows (wrapped to 64
  bits), correct\_edits = (Unmodified of the Prime-edited row / total) * 100,
  incorrect\_edits = (Modified of the Prime-edited row / total) * 100 and
  scaffold\_incorporated = (Modified of the Scaffold-incorporated row / total) * 100,
  each computed in float64: the quotient is rounded, then its product by 100 is
  rounded. Whenever \<open>process_data\<close> returns, the batch is returned with these three
  values.
\<close>

theorem metric_aggregator_float_percentages:
  assumes "rows = filter (\<lambda>r. Batch r = n) df" and "length rows = 3"
    and "filter (\<lambda>r. Amplicon r = ''Prime-edited'') rows = [pr]"
    and "filter (\<lambda>r. Amplicon r = ''Scaffold-incorporated'') rows = [sr]"
    and "total_reads = wrap64 (sum_list (map (\<lambda>r. Unmodified r + Modified r + Discarded r) rows))"
    and "extract_batch_info n = Inr ((pe, Some p, Some r, Some rep, dc), out)"
  shows "\<exists>d. process_batch df n = Inr (if pe = None then MissingPE d else Resolved d, out)
      \<and> correct_edits d = fl_mul (np_true_divide (Unmodified pr) total_reads) (Fin 100)
      \<and> incorrect_edits d = fl_mul (np_true_divide (Modified pr) total_reads) (Fin 100)
      \<and> scaffold_incorporated d = fl_mul (np_true_divide (Modified sr) total_reads) (Fin 100)
      \<and> (\<forall>answers bs. process_data df answers = Inr bs \<longrightarrow>
           (\<exists>d'. map_of bs n = Some d' \<and> correct_edits d' = correct_edits d
              \<and> incorrect_edits d' = incorrect_edits d
              \<and> scaffold_incorporated d' = scaffold_incorporated d))"
proof -
  define d where "d = \<lparr> prime_editor = pe, pbs = p, rtt = r, replicate = rep,
                 correct_edits = pct (Unmodified pr) (batch_total df n),
                 incorrect_edits = pct (Modified pr) (batch_total df n),
                 scaffold_incorporated = pct (Modified sr) (batch_total df n),
                 drug_code = check_control dc \<rparr>"
  have tot: "batch_total df n = total_reads" using assms(1,5) by (simp add: batch_total_def)
  have pb: "process_batch df n = Inr (if pe = None then MissingPE d else Resolved d, out)"
    by (rule process_batch_parsed[OF assms(2,3,4)[unfolded assms(1)] assms(6) d_def])
  have vals: "correct_edits d = fl_mul (np_true_divide (Unmodified pr) total_reads) (Fin 100)"
    "incorrect_edits d = fl_mul (np_true_divide (Modified pr) total_reads) (Fin 100)"
    "scaffold_incorporated d = fl_mul (np_true_divide (Modified sr) total_reads) (Fin 100)"
    by (simp_all add: d_def pct_def tot)
  have ret: "\<exists>d'. map_of bs n = Some d' \<and> correct_edits d' = correct_edits d
              \<and> incorrect_edits d' = incorrect_edits d \<and> scaffold_incorporated d' = scaffold_incorporated d"
    if "process_data df answers = Inr bs" for answers bs
    using recorded_batch_returned[OF pb that] by blast
  from pb vals ret show ?thesis by blast
qed

theorem metric_aggregator_float_percentages_witness:
  "\<exists>d. process_batch example_rows ''XPE2_P5_R10_Rep2'' = Inr (Resolved d, [])
      \<and> correct_edits d = Fin (2345624805922133 / 2 ^ 49)
      \<and> incorrect_edits d = Fin (5 / 2)
      \<and> scaffold_incorporated d = Fin (7505999378950827 / 2 ^ 53)"
proof -
  let ?pr = "\<lparr>Batch = ''XPE2_P5_R10_Rep2'', Amplicon = ''Prime-edited'', Unmodified = 5, Modified = 3, Discarded = 2\<rparr>"
  let ?sr = "\<lparr>Batch = ''XPE2_P5_R10_Rep2'', Amplicon = ''Scaffold-incorporated'', Unmodified = 2, Modified = 1, Discarded = 7\<rparr>"
  let ?rows = "filter (\<lambda>r. Batch r = ''XPE2_P5_R10_Rep2'') example_rows"
  have l3: "length ?rows = 3" by (simp add: example_rows_def)
  have pr: "filter (\<lambda>r. Amplicon r = ''Prime-edited'') ?rows = [?pr]" by (simp add: example_rows_def)
  have sr: "filter (\<lambda>r. Amplicon r = ''Scaffold-incorporated'') ?rows = [?sr]" by (simp add: example_rows_def)
  have tot: "(120::int) = wrap64 (sum_list (map (\<lambda>r. Unmodified r + Modified r + Discarded r) ?rows))"
    by (simp add: example_rows_def wrap64_def)
  have ex: "extract_batch_info ''XPE2_P5_R10_Rep2'' = Inr ((Some ''PE2'', Some 5, Some 10, Some 2, None), [])"
    by code_simp
  have c: "fl_mul (np_true_divide 5 120) (Fin 100) = Fin (2345624805922133 / 2 ^ 49)" by code_simp
  have i: "fl_mul (np_true_divide 3 120) (Fin 100) = Fin (5 / 2)" by code_simp
  have s: "fl_mul (np_true_divide 1 120) (Fin 100) = Fin (7505999378950827 / 2 ^ 53)" by code_simp
  from metric_aggregator_float_percentages[OF refl l3 pr sr tot ex] obtain d where
    "process_batch example_rows ''XPE2_P5_R10_Rep2'' = Inr (Resolved d, [])"
    "correct_edits d = fl_mul (np_true_divide 5 120) (Fin 100)"
    "incorrect_edits d = fl_mul (np_true_divide 3 120) (Fin 100)"
    "scaffold_incorporated d = fl_mul (np_true_divide 1 120) (Fin 100)"
    by auto
  with c i s show ?thesis by auto
qed


section \<open>Structural validation\<close>





section \<open>A zero total\<close>

text \<open>
  C3, as stated, fails: the batch of \<open>zero_rows\<close> has a total of zero reads and is
  returned by \<open>process_data\<close>, with \<open>nan\<close> for its three percentages.
\<close>

theorem zero_total_batch_is_returned:
  "process_data zero_rows [] =
     Inr [(''XPE2_P5_R10_Rep2'',
           \<lparr> prime_editor = Some ''PE2'', pbs = 5, rtt = 10, replicate = 2,
             correct_edits = NaN, incorrect_edits = NaN, scaffold_incorporated = NaN,
             drug_code = None \<rparr>)]"
  by code_simp

lemma sum_list_map_nonneg:
  "\<forall>x \<in> set xs. (0::int) \<le> f x \<Longrightarrow> 0 \<le> sum_list (map f xs)"
  by (induction xs) auto

lemma sum_list_nonneg_zero:
  "\<forall>x \<in> set xs. (0::int) \<le> f x \<Longrightarrow> sum_list (map f xs) = 0 \<Longrightarrow> x \<in> set xs \<Longrightarrow> f x = 0"
proof (induction xs)
  case Nil
  then show ?case by simp
next
  case (Cons a xs)
  have "0 \<le> sum_list (map f xs)" using Cons.prems(1) by (simp add: sum_list_map_nonneg)
  with Cons show ?case by auto
qed

text \<open>
  C3, amended. \<open>process_data\<close> has no guard for a zero total. A batch that passes the
  structural checks and whose counts sum to zero is not skipped: the division is
  numpy's, so each percentage is \<open>nan\<close> when its count is zero too (always, when the
  counts are non-negative) and an infinity otherwise; when the name of the batch
  parses, the batch is recorded with these values and is among the batches that
  \<open>process_data\<close> returns. The zero total raises nothing, so the loop goes on as for
  any other batch.
\<close>

theorem zero_total_not_guarded:
  assumes "rows = filter (\<lambda>r. Batch r = n) df" and "length rows = 3"
    and "filter (\<lambda>r. Amplicon r = ''Prime-edited'') rows = [pr]"
    and "filter (\<lambda>r. Amplicon r = ''Scaffold-incorporated'') rows = [sr]"
    and "sum_list (map (\<lambda>r. Unmodified r + Modified r + Discarded r) rows) = 0"
    and "extract_batch_info n = Inr ((pe, Some p, Some r, Some rep, dc), out)"
  shows "\<exists>d. process_batch df n = Inr (if pe = None then MissingPE d else Resolved d, out)
      \<and> correct_edits d = (if Unmodified pr = 0 then NaN else if 0 < Unmodified pr then PInf else NInf)
      \<and> incorrect_edits d = (if Modified pr = 0 then NaN else if 0 < Modified pr then PInf else NInf)
      \<and> scaffold_incorporated d = (if Modified sr = 0 then NaN else if 0 < Modified sr then PInf else NInf)
      \<and> ((\<forall>x \<in> set rows. 0 \<le> Unmodified x \<and> 0 \<le> Modified x \<and> 0 \<le> Discarded x) \<longrightarrow>
           correct_edits d = NaN \<and> incorrect_edits d = NaN \<and> scaffold_incorporated d = NaN)
      \<and> (\<forall>answers bs. process_data df answers = Inr bs \<longrightarrow>
           (\<exists>d'. map_of bs n = Some d' \<and> correct_edits d' = correct_edits d
              \<and> incorrect_edits d' = incorrect_edits d \<and> scaffold_incorporated d' = scaffold_incorporated d))"
proof -
  define d where "d = \<lparr> prime_editor = pe, pbs = p, rtt = r, replicate = rep,
                 correct_edits = pct (Unmodified pr) 0,
                 incorrect_edits = pct (Modified pr) 0,
                 scaffold_incorporated = pct (Modified sr) 0,
                 drug_code = check_control dc \<rparr>"
  have tot: "batch_total df n = 0" using assms(1,5) by (simp add: batch_total_def wrap64_def)
  have pb: "process_batch df n = Inr (if pe = None then MissingPE d else Resolved d, out)"
    using process_batch_valid[OF assms(2,3,4)[unfolded assms(1)]]
    by (simp add: assms(6) bind_r_def tot d_def Let_def)
  have nonneg: "correct_edits d = NaN \<and> incorrect_edits d = NaN \<and> scaffold_incorporated d = NaN"
    if nn: "\<forall>x \<in> set rows. 0 \<le> Unmodified x \<and> 0 \<le> Modified x \<and> 0 \<le> Discarded x"
  proof -
    have "pr \<in> set (filter (\<lambda>r. Amplicon r = ''Prime-edited'') rows)" by (simp add: assms(3))
    then have prin: "pr \<in> set rows" by simp
    have "sr \<in> set (filter (\<lambda>r. Amplicon r = ''Scaffold-incorporated'') rows)" by (simp add: assms(4))
    then have srin: "sr \<in> set rows" by simp
    have all: "\<forall>x \<in> set rows. 0 \<le> Unmodified x + Modified x + Discarded x" using nn by auto
    have "Unmodified pr + Modified pr + Discarded pr = 0"
      by (rule sum_list_nonneg_zero[OF all assms(5) prin])
    moreover have "Unmodified sr + Modified sr + Discarded sr = 0"
      by (rule sum_list_nonneg_zero[OF all assms(5) srin])
    ultimately have "Unmodified pr = 0 \<and> Modified pr = 0 \<and> Modified sr = 0"
      using nn prin srin by (smt (verit))
    then show ?thesis by (simp add: d_def pct_zero)
  qed
  have ret: "\<exists>d'. map_of bs n = Some d' \<and> correct_edits d' = correct_edits d
              \<and> incorrect_edits d' = incorrect_edits d \<and> scaffold_incorporated d' = scaffold_incorporated d"
    if pd: "process_data df answers = Inr bs" for answers bs
  proof (cases "pe = None")
    case True
    with pb have "missing_of (process_batch df n) = Some d" by (simp add: missing_of_def)
    from process_data_missing(1)[OF pd this] show ?thesis by auto
  next
    case False
    with pb have "resolved_of (process_batch df n) = Some d" by (simp add: resolved_of_def)
    from process_data_resolved[OF pd this] show ?thesis by auto
  qed
  have vals: "correct_edits d = (if Unmodified pr = 0 then NaN else if 0 < Unmodified pr then PInf else NInf)"
    "incorrect_edits d = (if Modified pr = 0 then NaN else if 0 < Modified pr then PInf else NInf)"
    "scaffold_incorporated d = (if Modified sr = 0 then NaN else if 0 < Modified sr then PInf else NInf)"
    by (simp_all add: d_def pct_zero)
  from pb vals nonneg ret show ?thesis by blast
qed

theorem zero_total_not_guarded_witness:
  "\<exists>d. process_batch zero_rows ''XPE2_P5_R10_Rep2'' = Inr (Resolved d, [])
      \<and> correct_edits d = NaN \<and> incorrect_edits d = NaN \<and> scaffold_incorporated d = NaN"
proof -
  let ?pr = "\<lparr>Batch = ''XPE2_P5_R10_Rep2'', Amplicon = ''Prime-edited'', Unmodified = 0, Modified = 0, Discarded = 0\<rparr>"
  let ?sr = "\<lparr>Batch = ''XPE2_P5_R10_Rep2'', Amplicon = ''Scaffold-incorporated'', Unmodified = 0, Modified = 0, Discarded = 0\<rparr>"
  let ?rows = "filter (\<lambda>r. Batch r = ''XPE2_P5_R10_Rep2'') zero_rows"
  have l3: "length ?rows = 3" by (simp add: zero_rows_def)
  have pr: "filter (\<lambda>r. Amplicon r = ''Prime-edited'') ?rows = [?pr]" by (simp add: zero_rows_def)
  have sr: "filter (\<lambda>r. Amplicon r = ''Scaffold-incorporated'') ?rows = [?sr]" by (simp add: zero_rows_def)
  have z: "sum_list (map (\<lambda>r. Unmodified r + Modified r + Discarded r) ?rows) = 0"
    by (simp add: zero_rows_def)
  have ex: "extract_batch_info ''XPE2_P5_R10_Rep2'' = Inr ((Some ''PE2'', Some 5, Some 10, Some 2, None), [])"
    by code_simp
  from zero_total_not_guarded[OF refl l3 pr sr z ex] show ?thesis
    by (simp del: filter_filter) metis
qed

section \<open>Control samples and the drug of a batch\<close>

lemma process_data_drug_code:
  assumes "process_data df answers = Inr bs" and "map_of bs n = Some d"
  shows "\<exists>pe p r rep dc out. extract_batch_info n = Inr ((pe, p, r, rep, dc), out)
           \<and> drug_code d = check_control dc"
proof -
  from process_data_lookup_cases[OF assms] obtain d0 oc out where
    pb: "process_batch df n = Inr (oc, out)" and oc: "oc = Resolved d0 \<or> oc = MissingPE d0"
    and dd: "drug_code d = drug_code d0"
    by auto
  from process_batch_recorded[OF pb oc] dd show ?thesis by auto
qed

text \<open>
  C8, as stated, fails in its last part: the code \<open>drugA\<close> is not the control code,
  and when the operator picks the first listed drug for it, which is the reserved drug
  \<open>None\<close>, \<open>get_or_create_drug\<close> returns the reserved identifier, so the batch lands
  in the bucket of the untreated batches.
\<close>

theorem drug_code_mapped_to_reserved_drug:
  "check_control (Some ''drugA'') = Some ''drugA''
   \<and> get_or_create_drug ''11111111-2222-3333-4444-555555555555'' (Some ''drugA'') initial_drug_state =
       Inr (no_drug_id,
            \<lparr>drug_cache = [(''drugA'', no_drug_id)],
             drugs_table = [(no_drug_id, ''None'', ''No drug used'')], pending_input = []\<rparr>)
   \<and> get_or_create_drug ''11111111-2222-3333-4444-555555555555'' None initial_drug_state =
       Inr (no_drug_id, initial_drug_state)"
  by code_simp

text \<open>
  C8, amended. A drug code that equals \<open>ctrl\<close> when lowered is replaced by no drug
  code, and no drug code is mapped to the identifier of the reserved drug \<open>None\<close>
  with no question to the operator and no change of the cache or the table: a control
  batch never has a bucket of its own. Every other code is kept as it is spelled in the
  batch that \<open>process_data\<close> returns, and its drug is the operator's choice, made once
  per spelling: a code in the cache gets the cached identifier; otherwise, when the
  operator's line reads as a number \<open>k\<close> from 1 to the number of listed drugs, the
  code gets the \<open>k\<close>-th listed drug, whichever it is, and when it reads as 0 the code
  gets a new drug under a fresh identifier with the name and description typed next;
  the choice is cached under the code.
\<close>

theorem treatment_code_resolution:
  "(py_lower c = ''ctrl'' \<longrightarrow> check_control (Some c) = None)
   \<and> check_control None = None
   \<and> get_or_create_drug fresh None st = Inr (no_drug_id, st)
   \<and> (py_lower c \<noteq> ''ctrl'' \<longrightarrow> check_control (Some c) = Some c)
   \<and> (process_data df answers = Inr bs \<and> map_of bs n = Some d \<longrightarrow>
        (\<exists>pe p r rep dc out. extract_batch_info n = Inr ((pe, p, r, rep, dc), out)
           \<and> drug_code d = check_control dc))
   \<and> (map_of (drug_cache st) c = Some i \<longrightarrow> get_or_create_drug fresh (Some c) st = Inr (i, st))
   \<and> (map_of (drug_cache st) c = None \<and> pending_input st = a # rest \<and> py_int a = Inr k
        \<and> 1 \<le> k \<and> k \<le> int (length (drugs_table st)) \<longrightarrow>
        get_or_create_drug fresh (Some c) st =
          Inr (fst (drugs_table st ! (nat k - 1)),
               st\<lparr>drug_cache := AList.update c (fst (drugs_table st ! (nat k - 1))) (drug_cache st),
                  pending_input := rest\<rparr>))
   \<and> (map_of (drug_cache st) c = None \<and> pending_input st = a # nm # ds # rest \<and> py_int a = Inr 0 \<longrightarrow>
        get_or_create_drug fresh (Some c) st =
          Inr (fresh,
               st\<lparr>drug_cache := AList.update c fresh (drug_cache st),
                  drugs_table := drugs_table st @ [(fresh, nm, ds)],
                  pending_input := rest\<rparr>))"
proof -
  have ne: "py_lower c = ''ctrl'' \<Longrightarrow> c \<noteq> []" by (auto simp: py_lower_def)
  have a1: "py_lower c = ''ctrl'' \<longrightarrow> check_control (Some c) = None"
    using ne by (auto simp: check_control_def)
  have a2: "check_control None = None" by (simp add: check_control_def)
  have a3: "get_or_create_drug fresh None st = Inr (no_drug_id, st)"
    by (simp add: get_or_create_drug_def)
  have a4: "py_lower c \<noteq> ''ctrl'' \<longrightarrow> check_control (Some c) = Some c"
    by (auto simp: check_control_def)
  have a5: "process_data df answers = Inr bs \<and> map_of bs n = Some d \<longrightarrow>
        (\<exists>pe p r rep dc out. extract_batch_info n = Inr ((pe, p, r, rep, dc), out)
           \<and> drug_code d = check_control dc)"
    using process_data_drug_code[of df answers bs n d] by blast
  have a6: "map_of (drug_cache st) c = Some i \<longrightarrow> get_or_create_drug fresh (Some c) st = Inr (i, st)"
    by (simp add: get_or_create_drug_def)
  have a7: "map_of (drug_cache st) c = None \<and> pending_input st = a # rest \<and> py_int a = Inr k
        \<and> 1 \<le> k \<and> k \<le> int (length (drugs_table st)) \<longrightarrow>
        get_or_create_drug fresh (Some c) st =
          Inr (fst (drugs_table st ! (nat k - 1)),
               st\<lparr>drug_cache := AList.update c (fst (drugs_table st ! (nat k - 1))) (drug_cache st),
                  pending_input := rest\<rparr>)"
    by (auto simp: get_or_create_drug_def bind_r_def Let_def)
  have a8: "map_of (drug_cache st) c = None \<and> pending_input st = a # nm # ds # rest \<and> py_int a = Inr 0 \<longrightarrow>
        get_or_create_drug fresh (Some c) st =
          Inr (fresh,
               st\<lparr>drug_cache := AList.update c fresh (drug_cache st),
                  drugs_table := drugs_table st @ [(fresh, nm, ds)],
                  pending_input := rest\<rparr>)"
    by (auto simp: get_or_create_drug_def bind_r_def)
  from a1 a2 a3 a4 a5 a6 a7 a8 show ?thesis by blast
qed

theorem treatment_code_resolution_witness:
  "py_lower ''CtRl'' = ''ctrl'' \<and> check_control (Some ''CtRl'') = None
   \<and> py_lower ''drugA'' \<noteq> ''ctrl'' \<and> check_control (Some ''drugA'') = Some ''drugA''
   \<and> process_data ctrl_rows [] =
       Inr [(''X_PE2_P5R10_ctrl'',
             \<lparr> prime_editor = Some ''PE2'', pbs = 5, rtt = 10, replicate = 1,
               correct_edits = Fin (25 / 4), incorrect_edits = Fin (25 / 8),
               scaffold_incorporated = Fin (25 / 16), drug_code = None \<rparr>)]
   \<and> get_or_create_drug ''u1'' (Some ''drugA'')
        \<lparr>drug_cache = [(''drugA'', ''d7'')], drugs_table = [], pending_input = []\<rparr>
       = Inr (''d7'', \<lparr>drug_cache = [(''drugA'', ''d7'')], drugs_table = [], pending_input = []\<rparr>)
   \<and> get_or_create_drug ''u1'' (Some ''drugA'')
        \<lparr>drug_cache = [], drugs_table = [(no_drug_id, ''None'', ''No drug used''), (''d7'', ''Drug A'', '''')],
         pending_input = [''x'', ''9'', '' 2 '', ''zz'']\<rparr>
       = Inr (''d7'', \<lparr>drug_cache = [(''drugA'', ''d7'')],
                       drugs_table = [(no_drug_id, ''None'', ''No drug used''), (''d7'', ''Drug A'', '''')],
                       pending_input = [''zz'']\<rparr>)
   \<and> get_or_create_drug ''u1'' (Some ''drugA'')
        \<lparr>drug_cache = [], drugs_table = [(no_drug_id, ''None'', ''No drug used'')],
         pending_input = [''0'', ''Drug A'', ''first'', ''zz'']\<rparr>
       = Inr (''u1'', \<lparr>drug_cache = [(''drugA'', ''u1'')],
                       drugs_table = [(no_drug_id, ''None'', ''No drug used''), (''u1'', ''Drug A'', ''first'')],
                       pending_input = [''zz'']\<rparr>)"
proof -
  let ?d = "\<lparr> prime_editor = Some ''PE2'', pbs = 5, rtt = 10, replicate = 1,
               correct_edits = Fin (25 / 4), incorrect_edits = Fin (25 / 8),
               scaffold_incorporated = Fin (25 / 16), drug_code = None \<rparr>"
  let ?s1 = "\<lparr>drug_cache = [(''drugA'', ''d7'')], drugs_table = [], pending_input = []\<rparr>"
  let ?s2 = "\<lparr>drug_cache = [], drugs_table = [(no_drug_id, ''None'', ''No drug used''), (''d7'', ''Drug A'', '''')],
         pending_input = ['' 2 '', ''zz'']\<rparr>"
  let ?s3 = "\<lparr>drug_cache = [], drugs_table = [(no_drug_id, ''None'', ''No drug used'')],
         pending_input = [''0'', ''Drug A'', ''first'', ''zz'']\<rparr>"
  have l1: "py_lower ''CtRl'' = ''ctrl''" by code_simp
  have l2: "py_lower ''drugA'' \<noteq> ''ctrl''" by code_simp
  have pd: "process_data ctrl_rows [] = Inr [(''X_PE2_P5R10_ctrl'', ?d)]" by code_simp
  have look: "map_of [(''X_PE2_P5R10_ctrl'', ?d)] ''X_PE2_P5R10_ctrl'' = Some ?d" by simp
  have c1: "map_of (drug_cache ?s1) ''drugA'' = Some ''d7''" by simp
  have i2: "py_int '' 2 '' = Inr 2" by code_simp
  have i0: "py_int ''0'' = Inr 0" by code_simp
  note t1 = treatment_code_resolution[of "''CtRl''" "''u1''" ?s1 ctrl_rows "[]"
      "[(''X_PE2_P5R10_ctrl'', ?d)]" "''X_PE2_P5R10_ctrl''" ?d "''d7''" "''0''" "[]" 1 "''n''" "''d''"]
  note t2 = treatment_code_resolution[of "''drugA''" "''u1''" ?s1 ctrl_rows "[]"
      "[(''X_PE2_P5R10_ctrl'', ?d)]" "''X_PE2_P5R10_ctrl''" ?d "''d7''" "''0''" "[]" 1 "''n''" "''d''"]
  note t3 = treatment_code_resolution[of "''drugA''" "''u1''" ?s2 ctrl_rows "[]"
      "[(''X_PE2_P5R10_ctrl'', ?d)]" "''X_PE2_P5R10_ctrl''" ?d "''d7''" "'' 2 ''" "[''zz'']" 2 "''n''" "''d''"]
  note t4 = treatment_code_resolution[of "''drugA''" "''u1''" ?s3 ctrl_rows "[]"
      "[(''X_PE2_P5R10_ctrl'', ?d)]" "''X_PE2_P5R10_ctrl''" ?d "''d7''" "''0''" "[''zz'']" 0 "''Drug A''" "''first''"]
  from t1 l1 have a: "check_control (Some ''CtRl'') = None" by blast
  from t2 l2 have b: "check_control (Some ''drugA'') = Some ''drugA''" by blast
  from t2 c1 have c: "get_or_create_drug ''u1'' (Some ''drugA'') ?s1 = Inr (''d7'', ?s1)" by blast
  from t3 i2 have e: "get_or_create_drug ''u1'' (Some ''drugA'') ?s2 =
      Inr (''d7'', \<lparr>drug_cache = [(''drugA'', ''d7'')],
                       drugs_table = [(no_drug_id, ''None'', ''No drug used''), (''d7'', ''Drug A'', '''')],
                       pending_input = [''zz'']\<rparr>)" by simp
  have skip: "get_or_create_drug ''u1'' (Some ''drugA'')
        \<lparr>drug_cache = [], drugs_table = [(no_drug_id, ''None'', ''No drug used''), (''d7'', ''Drug A'', '''')],
         pending_input = [''x'', ''9'', '' 2 '', ''zz'']\<rparr> = get_or_create_drug ''u1'' (Some ''drugA'') ?s2"
    by code_simp
  from t4 i0 have f: "get_or_create_drug ''u1'' (Some ''drugA'') ?s3 =
      Inr (''u1'', \<lparr>drug_cache = [(''drugA'', ''u1'')],
                       drugs_table = [(no_drug_id, ''None'', ''No drug used''), (''u1'', ''Drug A'', ''first'')],
                       pending_input = [''zz'']\<rparr>)" by simp
  from l1 l2 a b pd c e skip f show ?thesis by simp
qed


section \<open>Resolution of a missing prime editor\<close>











section \<open>Normalisation across runs\<close>

lemma collect_runs_eight_columns:
  "length r = 8 \<Longrightarrow> collect_runs entries (r # rest) acc = Inl ValueError"
  by (simp add: unpack_def bind_r_def)

lemma normalize_raises:
  assumes "data_points = r # rest" and "length r = 8"
  shows "get_experiment_data drug_rows all_runs selected_runs entries data_points True = Inl ValueError"
  unfolding get_experiment_data_def Let_def assms(1)
  by (simp add: collect_runs_eight_columns[OF assms(2)] bind_r_def del: collect_runs.simps)

text \<open>
  C2 does not hold of the code. With normalisation requested, the first loop over the
  data points (line 158) unpacks every fetched row, which has the eight columns of the
  query, into seven names: for the two runs that share the coordinate (7, 7) with 40 and
  50 percent correct edits, \<open>get_experiment_data\<close> raises \<open>ValueError\<close> before any
  factor is computed. The loop that fills the heat-map data (line 197) unpacks the same
  rows into eight names.
\<close>

theorem normalizer_two_runs_raises:
  "get_experiment_data [] two_runs [] two_run_entries shared_points True = Inl ValueError
   \<and> collect_runs two_run_entries shared_points [] = Inl ValueError
   \<and> unpack 7 (hd shared_points) = Inl ValueError
   \<and> unpack 8 (hd shared_points) = Inr (hd shared_points)"
  by code_simp

text \<open>
  C5 does not hold of the code, by the same defect. For two runs that share no
  coordinate, the request to normalise ends in \<open>ValueError\<close> at the same loop, before
  the test for a common coordinate is reached, and not in the values that come out
  without normalisation. Only when no data point is fetched is the test reached; it
  then prints the warning and turns normalisation off.
\<close>

theorem no_common_coordinate_raises:
  "get_experiment_data [] two_runs [] two_run_entries disjoint_points True = Inl ValueError
   \<and> get_experiment_data [] two_runs [] two_run_entries disjoint_points False =
       Inr ([((SText ''PE2'', SText ''None'', ''correct_edits''), [((7, 7), Fin 40), ((8, 8), Fin 50)]),
             ((SText ''PE2'', SText ''None'', ''incorrect_edits''), [((7, 7), Fin 4), ((8, 8), Fin 5)]),
             ((SText ''PE2'', SText ''None'', ''scaffold_incorporated''), [((7, 7), Fin 2), ((8, 8), Fin 1)])],
            [(SText no_drug_id, SText ''None'')], two_runs, [])
   \<and> get_experiment_data [] two_runs [] two_run_entries [] True =
       Inr ([], [(SText no_drug_id, SText ''None'')], two_runs, [NoCommonCombination])"
  by code_simp

section \<open>Names that no template matches\<close>

lemma not_digit_chars [simp]:
  "\<not> is_digit (CHR ''_'')" "\<not> is_digit (CHR ''P'')" "\<not> is_digit (CHR ''R'')" "\<not> is_digit (CHR ''E'')"
  by (simp_all add: is_digit_def)

lemma not_alpha_chars [simp]: "\<not> is_alpha (CHR ''_'')" "\<not> is_alpha (CHR 0x0A)"
  by (simp_all add: is_alpha_def)









lemma match_items_cons_nonempty:
  "match_items (i # is) st \<noteq> [] \<Longrightarrow> \<exists>st' \<in> set (match_item i st). match_items is st' \<noteq> []"
  by auto





















end
